theory Spec2Isabelle
  imports Main "HOL-Library.Char_ord" "HOL-Library.List_Lexorder" "HOL-Library.Monad_Syntax"
begin

section \<open>Go strings\<close>

text \<open>
  A Go string is a sequence of bytes: \<^typ>\<open>string\<close>. The functions of package
  \<open>strings\<close> that the registry code calls are written out here; every separator the
  code passes but the scheme prefix is a single byte, so \<open>Index\<close> and
  \<open>LastIndex\<close> take a character. Both return \<open>-1\<close> when the byte does not occur,
  as in Go.
\<close>

definition HasPrefix :: "string \<Rightarrow> string \<Rightarrow> bool" where
  "HasPrefix s p = (take (length p) s = p)"

definition TrimPrefix :: "string \<Rightarrow> string \<Rightarrow> string" where
  "TrimPrefix s p = (if HasPrefix s p then drop (length p) s else s)"

fun Index :: "string \<Rightarrow> char \<Rightarrow> int" where
  "Index [] c = -1"
| "Index (x # xs) c =
     (if x = c then 0 else (let i = Index xs c in if i = -1 then -1 else i + 1))"

fun LastIndex :: "string \<Rightarrow> char \<Rightarrow> int" where
  "LastIndex [] c = -1"
| "LastIndex (x # xs) c =
     (let i = LastIndex xs c in if i \<noteq> -1 then i + 1 else if x = c then 0 else -1)"

text \<open>\<open>strings.SplitN(s, sep, 2)\<close>: one part when \<open>sep\<close> does not occur, else the text
  before the first occurrence and the text after it.\<close>

definition SplitN2 :: "string \<Rightarrow> char \<Rightarrow> string list" where
  "SplitN2 s c =
     (let i = Index s c in if i = -1 then [s] else [take (nat i) s, drop (nat i + 1) s])"

section \<open>OCI references (internal/registry)\<close>

datatype error =
    InvalidOCIReference string
  | NotFoundInArchive string
  | ArchiveReadError
  | JSONSyntaxError
  | NoMetadataJSON
  | CreatingDirectory
  | WritingFile

text \<open>\<open>ParseOciRef\<close> (client.go): the scheme is trimmed, the tag is what follows the
  first colon (\<open>latest\<close> when there is none), the registry is what precedes the first
  slash of the rest, and a rest with no slash is the only error.\<close>

definition ParseOciRef :: "string \<Rightarrow> error + (string \<times> string \<times> string)" where
  "ParseOciRef ociRef =
     (let ref = TrimPrefix ociRef ''oci://'';
          parts = SplitN2 ref (CHR '':'');
          tag = (if length parts = 2 then parts ! 1 else ''latest'');
          fullPath = parts ! 0;
          slashIdx = Index fullPath (CHR ''/'')
      in if slashIdx = -1 then Inl (InvalidOCIReference ociRef)
         else Inr (take (nat slashIdx) fullPath, drop (nat slashIdx + 1) fullPath, tag))"

text \<open>\<open>extractCollectionBase\<close> (collection.go).\<close>

definition extractCollectionBase :: "string \<Rightarrow> string" where
  "extractCollectionBase ociRef =
     (let ref = TrimPrefix ociRef ''oci://'';
          idx = LastIndex ref (CHR '':'');
          ref1 = (if idx \<noteq> -1 then take (nat idx) ref else ref);
          idx1 = LastIndex ref1 (CHR ''/'');
          ref2 = (if idx1 \<noteq> -1 then take (nat idx1) ref1 else ref1)
      in ref2)"

subsection \<open>The specification's reading of references\<close>

text \<open>The specification's words, written without indices: the text up to the first or
  the last occurrence of a byte, and the number of path segments after the host.\<close>

definition spec_strip_scheme :: "string \<Rightarrow> string" where
  "spec_strip_scheme r = (if take 6 r = ''oci://'' then drop 6 r else r)"

definition spec_before_first :: "char \<Rightarrow> string \<Rightarrow> string" where
  "spec_before_first c r = takeWhile (\<lambda>x. x \<noteq> c) r"

definition spec_before_last :: "char \<Rightarrow> string \<Rightarrow> string" where
  "spec_before_last c r =
     (if c \<in> set r then rev (tl (dropWhile (\<lambda>x. x \<noteq> c) (rev r))) else r)"

definition spec_segments_beyond_host :: "string \<Rightarrow> nat" where
  "spec_segments_beyond_host r =
     length (filter (\<lambda>x. x = CHR ''/'') (spec_before_first (CHR '':'') (spec_strip_scheme r)))"

section \<open>Archive metadata (internal/registry/collection.go)\<close>

text \<open>
  \<open>extractJSONFromTgz\<close> reads the blob through three library packages, which are
  parameters here: \<open>isGzip\<close> says whether \<open>gzip.NewReader\<close> accepts the blob,
  \<open>untar\<close> gives what \<open>tar.Reader\<close> yields over a reader, and \<open>unmarshal\<close> is
  \<open>json.Unmarshal\<close> into the requested type (\<open>None\<close> for a decoding error). What
  the tar reader yields is a list of entries, each a header name with the body that
  \<open>io.ReadAll\<close> returns (\<open>None\<close> when reading it fails), ended by \<open>io.EOF\<close> or by
  an error of \<open>Next\<close>.
\<close>

datatype reader = PlainReader string | GzipReader string

datatype tarEnd = AtEOF | NextFails

type_synonym archive = "(string \<times> string option) list \<times> tarEnd"

fun walkEntries ::
  "(string \<Rightarrow> 'a option) \<Rightarrow> string \<Rightarrow> (string \<times> string option) list \<Rightarrow> tarEnd \<Rightarrow> error + 'a"
where
  "walkEntries unmarshal filename [] AtEOF = Inl (NotFoundInArchive filename)"
| "walkEntries unmarshal filename [] NextFails = Inl ArchiveReadError"
| "walkEntries unmarshal filename ((name, body) # rest) e =
     (if TrimPrefix name ''./'' = filename then
        (case body of
           None \<Rightarrow> Inl ArchiveReadError
         | Some data \<Rightarrow>
             (case unmarshal data of None \<Rightarrow> Inl JSONSyntaxError | Some result \<Rightarrow> Inr result))
      else walkEntries unmarshal filename rest e)"

definition extractJSONFromTgz ::
  "(string \<Rightarrow> 'a option) \<Rightarrow> (string \<Rightarrow> bool) \<Rightarrow> (reader \<Rightarrow> archive) \<Rightarrow> string \<Rightarrow> string
    \<Rightarrow> error + 'a"
where
  "extractJSONFromTgz unmarshal isGzip untar blob filename =
     (let reader = (if \<not> isGzip blob then PlainReader blob else GzipReader blob);
          tr = untar reader
      in walkEntries unmarshal filename (fst tr) (snd tr))"

text \<open>\<open>extractItemJSON\<close>. On success \<open>extractJSONFromTgz\<close> returns the address of
  its result, so the tests \<open>tmpl != nil\<close> and \<open>feat != nil\<close> after \<open>err == nil\<close>
  always hold; a nil pointer of the returned pair is \<open>None\<close>.\<close>

definition extractItemJSON ::
  "(string \<Rightarrow> 't option) \<Rightarrow> (string \<Rightarrow> 'f option) \<Rightarrow> (string \<Rightarrow> bool) \<Rightarrow> (reader \<Rightarrow> archive)
    \<Rightarrow> string \<Rightarrow> error + ('t option \<times> 'f option)"
where
  "extractItemJSON unmarshalT unmarshalF isGzip untar blob =
     (case extractJSONFromTgz unmarshalT isGzip untar blob ''devcontainer-template.json'' of
        Inr tmpl \<Rightarrow> Inr (Some tmpl, None)
      | Inl e \<Rightarrow>
          (case extractJSONFromTgz unmarshalF isGzip untar blob ''devcontainer-feature.json'' of
             Inr feat \<Rightarrow> Inr (None, Some feat)
           | Inl e' \<Rightarrow> Inl NoMetadataJSON))"

section \<open>Configuration values (internal/devcontainer)\<close>

text \<open>
  The serializer takes a Go value of type \<open>any\<close> and switches on its dynamic type:
  \<open>map[string]any\<close>, \<open>[]any\<close>, and everything else, which goes to
  \<open>json.Marshal\<close>. Type \<open>prim\<close> holds the values of that last branch which the
  program passes: nil, booleans, numbers, strings, and the \<open>[]string\<close> that
  \<open>writeCustomizationList\<close> stores in the configuration. A number is carried as the
  literal \<open>json.Marshal\<close> prints for it (the formatting of binary floating point is
  not modelled). A map is an association list, looked up with \<^const>\<open>map_of\<close>; Go
  ranges over a map in no fixed order, here that of the list.
\<close>

datatype prim =
    PNull
  | PBool bool
  | PNumber string
  | PString string
  | PStringSlice "string list"

datatype json =
    JPrim prim
  | JArray "json list"
  | JObject "(string \<times> json) list"

datatype keyOrder = KeyOrder (keys: "string list") (children: "(string \<times> keyOrder) list")

subsection \<open>\<open>json.Marshal\<close> on strings and other primitives (Go's encoding/json)\<close>

definition byte :: "char \<Rightarrow> nat" where
  "byte c = of_char c"

definition hex :: "nat \<Rightarrow> char" where
  "hex n = ''0123456789abcdef'' ! n"

definition htmlSafe :: "char \<Rightarrow> bool" where
  "htmlSafe b = (0x20 \<le> byte b \<and> byte b < 0x80 \<and>
     b \<noteq> CHR 0x22 \<and> b \<noteq> CHR ''&'' \<and> b \<noteq> CHR ''<'' \<and> b \<noteq> CHR ''>'' \<and> b \<noteq> CHR 0x5C)"

definition escape_byte :: "char \<Rightarrow> string" where
  "escape_byte b =
     (if b = CHR 0x5C \<or> b = CHR 0x22 then [CHR 0x5C, b]
      else if b = CHR 0x08 then [CHR 0x5C, CHR ''b'']
      else if b = CHR 0x0C then [CHR 0x5C, CHR ''f'']
      else if b = CHR 0x0A then [CHR 0x5C, CHR ''n'']
      else if b = CHR 0x0D then [CHR 0x5C, CHR ''r'']
      else if b = CHR 0x09 then [CHR 0x5C, CHR ''t'']
      else [CHR 0x5C, CHR ''u'', CHR ''0'', CHR ''0'', hex (byte b div 16), hex (byte b mod 16)])"

definition cont :: "char \<Rightarrow> bool" where
  "cont c = (0x80 \<le> byte c \<and> byte c \<le> 0xBF)"

text \<open>\<open>utf8.DecodeRune\<close> on a string whose first byte is not ASCII: the width of the
  well-formed sequence at its head, \<open>0\<close> where Go returns \<open>(RuneError, 1)\<close>.\<close>

definition utf8_size :: "string \<Rightarrow> nat" where
  "utf8_size s =
     (case s of
        [] \<Rightarrow> 0
      | s0 # r \<Rightarrow>
          (let b = byte s0 in
           if 0xC2 \<le> b \<and> b \<le> 0xDF then
             (case r of s1 # _ \<Rightarrow> if cont s1 then 2 else 0 | _ \<Rightarrow> 0)
           else if 0xE0 \<le> b \<and> b \<le> 0xEF then
             (case r of
                s1 # s2 # _ \<Rightarrow>
                  if (if b = 0xE0 then 0xA0 else 0x80) \<le> byte s1
                     \<and> byte s1 \<le> (if b = 0xED then 0x9F else 0xBF) \<and> cont s2
                  then 3 else 0
              | _ \<Rightarrow> 0)
           else if 0xF0 \<le> b \<and> b \<le> 0xF4 then
             (case r of
                s1 # s2 # s3 # _ \<Rightarrow>
                  if (if b = 0xF0 then 0x90 else 0x80) \<le> byte s1
                     \<and> byte s1 \<le> (if b = 0xF4 then 0x8F else 0xBF) \<and> cont s2 \<and> cont s3
                  then 4 else 0
              | _ \<Rightarrow> 0)
           else 0))"

text \<open>\<open>appendString\<close> with \<open>escapeHTML\<close> set, as \<open>json.Marshal\<close> calls it.\<close>

function appendString_loop :: "string \<Rightarrow> string" where
  "appendString_loop [] = []"
| "appendString_loop (b # s) =
     (if byte b < 0x80 then
        (if htmlSafe b then [b] else escape_byte b) @ appendString_loop s
      else
        (let size = utf8_size (b # s) in
         if size = 0 then [CHR 0x5C, CHR ''u'', CHR ''f'', CHR ''f'', CHR ''f'', CHR ''d''] @ appendString_loop s
         else if take 3 (b # s) = [CHR 0xE2, CHR 0x80, CHR 0xA8] then
           [CHR 0x5C, CHR ''u'', CHR ''2'', CHR ''0'', CHR ''2'', CHR ''8''] @ appendString_loop (drop size (b # s))
         else if take 3 (b # s) = [CHR 0xE2, CHR 0x80, CHR 0xA9] then
           [CHR 0x5C, CHR ''u'', CHR ''2'', CHR ''0'', CHR ''2'', CHR ''9''] @ appendString_loop (drop size (b # s))
         else take size (b # s) @ appendString_loop (drop size (b # s))))"
  by pat_completeness auto
termination
  by (relation "measure length") auto

definition appendString :: "string \<Rightarrow> string" where
  "appendString s = [CHR 0x22] @ appendString_loop s @ [CHR 0x22]"

fun join_with :: "string \<Rightarrow> string list \<Rightarrow> string" where
  "join_with sep [] = []"
| "join_with sep [x] = x"
| "join_with sep (x # y # ys) = x @ sep @ join_with sep (y # ys)"

fun Marshal :: "prim \<Rightarrow> string" where
  "Marshal PNull = ''null''"
| "Marshal (PBool b) = (if b then ''true'' else ''false'')"
| "Marshal (PNumber lit) = lit"
| "Marshal (PString s) = appendString s"
| "Marshal (PStringSlice xs) = ''['' @ join_with '','' (map appendString xs) @ '']''"

subsection \<open>The ordered serializer\<close>

definition Repeat :: "string \<Rightarrow> nat \<Rightarrow> string" where
  "Repeat s n = concat (replicate n s)"

definition map_keys :: "(string \<times> json) list \<Rightarrow> string list" where
  "map_keys m = map fst m"

text \<open>\<open>m[k]\<close>: the zero value nil when the key is missing.\<close>

definition map_index :: "(string \<times> json) list \<Rightarrow> string \<Rightarrow> json" where
  "map_index m k = (case map_of m k of Some v \<Rightarrow> v | None \<Rightarrow> JPrim PNull)"

text \<open>The two loops of \<open>orderedKeysForMap\<close>, over \<open>order.keys\<close> with \<open>keys\<close> and
  \<open>seen\<close>, and over the map with \<open>newKeys\<close>.\<close>

fun existingKeys :: "(string \<times> json) list \<Rightarrow> string list \<Rightarrow> string list \<times> string list
    \<Rightarrow> string list \<times> string list" where
  "existingKeys m [] (ks, seen) = (ks, seen)"
| "existingKeys m (k # rest) (ks, seen) =
     (if map_of m k \<noteq> None then existingKeys m rest (ks @ [k], k # seen)
      else existingKeys m rest (ks, seen))"

fun unseenKeys :: "string list \<Rightarrow> string list \<Rightarrow> string list \<Rightarrow> string list" where
  "unseenKeys [] seen newKeys = newKeys"
| "unseenKeys (k # rest) seen newKeys =
     (if k \<notin> set seen then unseenKeys rest seen (newKeys @ [k])
      else unseenKeys rest seen newKeys)"

definition orderedKeysForMap :: "(string \<times> json) list \<Rightarrow> keyOrder option \<Rightarrow> string list" where
  "orderedKeysForMap m order =
     (case order of
        None \<Rightarrow> sort (map_keys m)
      | Some ord \<Rightarrow>
          (let (ks, seen) = existingKeys m (keys ord) ([], []);
               newKeys = unseenKeys (map_keys m) seen []
           in ks @ sort newKeys))"

definition childOrderOf :: "keyOrder option \<Rightarrow> string \<Rightarrow> keyOrder option" where
  "childOrderOf order k = (case order of None \<Rightarrow> None | Some ord \<Rightarrow> map_of (children ord) k)"

fun isPrimitive :: "json \<Rightarrow> bool" where
  "isPrimitive (JObject m) = False"
| "isPrimitive (JArray xs) = False"
| "isPrimitive (JPrim p) = True"

fun marshalPrimitive :: "json \<Rightarrow> string" where
  "marshalPrimitive (JPrim p) = Marshal p"
| "marshalPrimitive v = []"

lemma size_map_index: "size (map_index m k) < Suc (size_list (size_prod (\<lambda>_. 0) size) m)"
  by (induction m) (auto simp: map_index_def split: option.splits)

text \<open>The writers append to a buffer and nothing else: each is the text it appends.\<close>

function (sequential) writeValue :: "json \<Rightarrow> keyOrder option \<Rightarrow> string \<Rightarrow> nat \<Rightarrow> string"
  and writeObject :: "(string \<times> json) list \<Rightarrow> keyOrder option \<Rightarrow> string \<Rightarrow> nat \<Rightarrow> string"
  and writeObjectLoop ::
    "(string \<times> json) list \<Rightarrow> keyOrder option \<Rightarrow> string \<Rightarrow> nat \<Rightarrow> string list \<Rightarrow> string"
  and writeArray :: "json list \<Rightarrow> string \<Rightarrow> nat \<Rightarrow> string"
  and writeArrayLoop :: "json list \<Rightarrow> string \<Rightarrow> nat \<Rightarrow> string"
where
  "writeValue (JObject m) order indent depth = writeObject m order indent depth"
| "writeValue (JArray arr) order indent depth = writeArray arr indent depth"
| "writeValue (JPrim p) order indent depth = Marshal p"
| "writeObject m order indent depth =
     (if m = [] then ''{}''
      else ''{'' @ [CHR 0x0A]
        @ writeObjectLoop m order indent depth (orderedKeysForMap m order)
        @ Repeat indent depth @ ''}'')"
| "writeObjectLoop m order indent depth [] = []"
| "writeObjectLoop m order indent depth (k # ks) =
     Repeat indent (depth + 1) @ appendString k @ '': ''
       @ writeValue (map_index m k) (childOrderOf order k) indent (depth + 1)
       @ (if ks \<noteq> [] then '','' else []) @ [CHR 0x0A]
       @ writeObjectLoop m order indent depth ks"
| "writeArray arr indent depth =
     (if arr = [] then ''[]''
      else if list_all isPrimitive arr then
        ''['' @ join_with '', '' (map marshalPrimitive arr) @ '']''
      else ''['' @ [CHR 0x0A] @ writeArrayLoop arr indent depth @ Repeat indent depth @ '']'')"
| "writeArrayLoop [] indent depth = []"
| "writeArrayLoop (v # vs) indent depth =
     Repeat indent (depth + 1) @ writeValue v None indent (depth + 1)
       @ (if vs \<noteq> [] then '','' else []) @ [CHR 0x0A]
       @ writeArrayLoop vs indent depth"
  by pat_completeness auto
termination
  apply (relation "measures [
     (\<lambda>x. case x of
        Inl (Inl (v, _)) \<Rightarrow> size v
      | Inl (Inr (m, _)) \<Rightarrow> size (JObject m)
      | Inr (Inl (m, _)) \<Rightarrow> size (JObject m)
      | Inr (Inr (Inl (arr, _))) \<Rightarrow> size (JArray arr)
      | Inr (Inr (Inr (arr, _))) \<Rightarrow> size (JArray arr)),
     (\<lambda>x. case x of
        Inl (Inl (v, _)) \<Rightarrow> 3
      | Inl (Inr (m, _)) \<Rightarrow> 2
      | Inr (Inl (m, _)) \<Rightarrow> 1
      | Inr (Inr (Inl (arr, _))) \<Rightarrow> 2
      | Inr (Inr (Inr (arr, _))) \<Rightarrow> Suc 0),
     (\<lambda>x. case x of
        Inr (Inl (m, _, _, _, ks)) \<Rightarrow> length ks
      | _ \<Rightarrow> 0)]")
  apply (auto simp: size_map_index)
  done

definition marshalOrdered :: "json \<Rightarrow> keyOrder option \<Rightarrow> string" where
  "marshalOrdered v order = writeValue v order ''  '' 0 @ [CHR 0x0A]"

section \<open>The key-order tracker\<close>

subsection \<open>\<open>json.Decoder\<close>: \<open>Token\<close> and \<open>More\<close> (Go's encoding/json)\<close>

text \<open>
  The decoder of the standard library, as far as \<open>extractKeyOrder\<close> drives it: the
  unread input, the sticky error \<open>dec.err\<close>, and the token state with its stack. A
  scalar is read by the scanner (\<open>scanValue\<close>: string, number and the three
  literals) and turned into a token; the conversion of a number literal to
  \<open>float64\<close>, which fails beyond its range, is not modelled.
\<close>

datatype jerror = EOF | UnexpectedEOF | SyntaxError | PhasePanic

datatype token = Delim char | TString string | TNumber string | TBool bool | TNull

datatype tokenState =
    tokenTopValue | tokenArrayStart | tokenArrayValue | tokenArrayComma
  | tokenObjectStart | tokenObjectKey | tokenObjectColon | tokenObjectValue | tokenObjectComma

record Decoder =
  buf :: string
  err :: "jerror option"
  tokenState :: tokenState
  tokenStack :: "tokenState list"

definition NewDecoder :: "string \<Rightarrow> Decoder" where
  "NewDecoder data = \<lparr>buf = data, err = None, tokenState = tokenTopValue, tokenStack = []\<rparr>"

definition isSpace :: "char \<Rightarrow> bool" where
  "isSpace c = (c = CHR '' '' \<or> c = CHR 0x09 \<or> c = CHR 0x0D \<or> c = CHR 0x0A)"

definition isDigit :: "char \<Rightarrow> bool" where
  "isDigit c = (CHR ''0'' \<le> c \<and> c \<le> CHR ''9'')"

definition isHex :: "char \<Rightarrow> bool" where
  "isHex c = (isDigit c \<or> (CHR ''a'' \<le> c \<and> c \<le> CHR ''f'') \<or> (CHR ''A'' \<le> c \<and> c \<le> CHR ''F''))"

fun scanString :: "string \<Rightarrow> jerror + string \<times> string" where
  "scanString [] = Inl UnexpectedEOF"
| "scanString (c # s) =
     (if c = CHR 0x22 then Inr ([c], s)
      else if c = CHR 0x5C then
        (case s of
           [] \<Rightarrow> Inl UnexpectedEOF
         | e # s' \<Rightarrow>
             if e \<in> set [CHR ''b'', CHR ''f'', CHR ''n'', CHR ''r'', CHR ''t'', CHR 0x5C, CHR ''/'', CHR 0x22]
             then (case scanString s' of Inl x \<Rightarrow> Inl x | Inr (l, r) \<Rightarrow> Inr (c # e # l, r))
             else if e = CHR ''u'' then
               (if \<not> list_all isHex (take 4 s') then Inl SyntaxError
                else if length s' < 4 then Inl UnexpectedEOF
                else (case scanString (drop 4 s') of
                        Inl x \<Rightarrow> Inl x
                      | Inr (l, r) \<Rightarrow> Inr (c # e # take 4 s' @ l, r)))
             else Inl SyntaxError)
      else if byte c < 0x20 then Inl SyntaxError
      else (case scanString s of Inl x \<Rightarrow> Inl x | Inr (l, r) \<Rightarrow> Inr (c # l, r)))"

datatype numState = stateNeg | state0 | state1 | stateDot | stateDot0 | stateE | stateESign | stateE0

definition step0 :: "char \<Rightarrow> numState option" where
  "step0 c =
     (if c = CHR ''.'' then Some stateDot else if c = CHR ''e'' \<or> c = CHR ''E'' then Some stateE else None)"

definition stepESign :: "char \<Rightarrow> numState option" where
  "stepESign c = (if isDigit c then Some stateE0 else None)"

fun numStep :: "numState \<Rightarrow> char \<Rightarrow> numState option" where
  "numStep stateNeg c =
     (if c = CHR ''0'' then Some state0 else if CHR ''1'' \<le> c \<and> c \<le> CHR ''9'' then Some state1 else None)"
| "numStep state1 c = (if isDigit c then Some state1 else step0 c)"
| "numStep state0 c = step0 c"
| "numStep stateDot c = (if isDigit c then Some stateDot0 else None)"
| "numStep stateDot0 c =
     (if isDigit c then Some stateDot0 else if c = CHR ''e'' \<or> c = CHR ''E'' then Some stateE else None)"
| "numStep stateE c = (if c = CHR ''+'' \<or> c = CHR ''-'' then Some stateESign else stepESign c)"
| "numStep stateESign c = stepESign c"
| "numStep stateE0 c = (if isDigit c then Some stateE0 else None)"

fun numEnd :: "numState \<Rightarrow> bool" where
  "numEnd state0 = True"
| "numEnd state1 = True"
| "numEnd stateDot0 = True"
| "numEnd stateE0 = True"
| "numEnd st = False"

fun scanNumber :: "numState \<Rightarrow> string \<Rightarrow> jerror + string \<times> string" where
  "scanNumber st [] = (if numEnd st then Inr ([], []) else Inl UnexpectedEOF)"
| "scanNumber st (c # s) =
     (case numStep st c of
        Some st' \<Rightarrow> (case scanNumber st' s of Inl x \<Rightarrow> Inl x | Inr (l, r) \<Rightarrow> Inr (c # l, r))
      | None \<Rightarrow> if numEnd st then Inr ([], c # s) else Inl SyntaxError)"

definition scanLiteral :: "string \<Rightarrow> string \<Rightarrow> jerror + string \<times> string" where
  "scanLiteral lit s =
     (if take (length lit) s = lit then Inr (lit, drop (length lit) s)
      else if s = take (length s) lit then Inl UnexpectedEOF
      else Inl SyntaxError)"

definition scanValue :: "string \<Rightarrow> jerror + string \<times> string" where
  "scanValue s =
     (case s of
        [] \<Rightarrow> Inl EOF
      | c # r \<Rightarrow>
          if c = CHR 0x22 then
            (case scanString r of Inl x \<Rightarrow> Inl x | Inr (l, r') \<Rightarrow> Inr (c # l, r'))
          else if c = CHR ''-'' then
            (case scanNumber stateNeg r of Inl x \<Rightarrow> Inl x | Inr (l, r') \<Rightarrow> Inr (c # l, r'))
          else if c = CHR ''0'' then
            (case scanNumber state0 r of Inl x \<Rightarrow> Inl x | Inr (l, r') \<Rightarrow> Inr (c # l, r'))
          else if CHR ''1'' \<le> c \<and> c \<le> CHR ''9'' then
            (case scanNumber state1 r of Inl x \<Rightarrow> Inl x | Inr (l, r') \<Rightarrow> Inr (c # l, r'))
          else if c = CHR ''t'' then scanLiteral ''true'' s
          else if c = CHR ''f'' then scanLiteral ''false'' s
          else if c = CHR ''n'' then scanLiteral ''null'' s
          else Inl SyntaxError)"

definition hexval :: "char \<Rightarrow> nat" where
  "hexval c =
     (if isDigit c then byte c - byte (CHR ''0'')
      else if CHR ''a'' \<le> c \<and> c \<le> CHR ''f'' then byte c - byte (CHR ''a'') + 10
      else byte c - byte (CHR ''A'') + 10)"

definition getu4 :: "string \<Rightarrow> int" where
  "getu4 s =
     (if length s < 6 \<or> s ! 0 \<noteq> CHR 0x5C \<or> s ! 1 \<noteq> CHR ''u'' then -1
      else if \<not> list_all isHex (take 4 (drop 2 s)) then -1
      else int (foldl (\<lambda>r c. r * 16 + hexval c) 0 (take 4 (drop 2 s))))"

definition RuneError :: string where
  "RuneError = [CHR 0xEF, CHR 0xBF, CHR 0xBD]"

definition EncodeRune :: "int \<Rightarrow> string" where
  "EncodeRune r =
     (let n = nat r in
      if r < 0 then RuneError
      else if n \<le> 0x7F then [char_of n]
      else if n \<le> 0x7FF then [char_of (0xC0 + n div 64), char_of (0x80 + n mod 64)]
      else if n > 0x10FFFF \<or> (0xD800 \<le> n \<and> n \<le> 0xDFFF) then RuneError
      else if n \<le> 0xFFFF then
        [char_of (0xE0 + n div 4096), char_of (0x80 + n div 64 mod 64), char_of (0x80 + n mod 64)]
      else [char_of (0xF0 + n div 262144), char_of (0x80 + n div 4096 mod 64),
            char_of (0x80 + n div 64 mod 64), char_of (0x80 + n mod 64)])"

definition IsSurrogate :: "int \<Rightarrow> bool" where
  "IsSurrogate r = (0xD800 \<le> r \<and> r < 0xE000)"

definition DecodeRune16 :: "int \<Rightarrow> int \<Rightarrow> int" where
  "DecodeRune16 r1 r2 =
     (if 0xD800 \<le> r1 \<and> r1 < 0xDC00 \<and> 0xDC00 \<le> r2 \<and> r2 < 0xE000
      then (r1 - 0xD800) * 1024 + (r2 - 0xDC00) + 0x10000
      else 0xFFFD)"

function unquote_loop :: "string \<Rightarrow> string option" where
  "unquote_loop [] = Some []"
| "unquote_loop (c # s) =
     (if c = CHR 0x5C then
        (case s of
           [] \<Rightarrow> None
         | e # s' \<Rightarrow>
             if e = CHR 0x22 \<or> e = CHR 0x5C \<or> e = CHR ''/'' \<or> e = CHR 0x27
             then map_option ((#) e) (unquote_loop s')
             else if e = CHR ''b'' then map_option ((#) (CHR 0x08)) (unquote_loop s')
             else if e = CHR ''f'' then map_option ((#) (CHR 0x0C)) (unquote_loop s')
             else if e = CHR ''n'' then map_option ((#) (CHR 0x0A)) (unquote_loop s')
             else if e = CHR ''r'' then map_option ((#) (CHR 0x0D)) (unquote_loop s')
             else if e = CHR ''t'' then map_option ((#) (CHR 0x09)) (unquote_loop s')
             else if e = CHR ''u'' then
               (let rr = getu4 (c # s) in
                if rr < 0 then None
                else if IsSurrogate rr then
                  (let dec = DecodeRune16 rr (getu4 (drop 4 s')) in
                   if dec \<noteq> 0xFFFD
                   then map_option ((@) (EncodeRune dec)) (unquote_loop (drop 10 s'))
                   else map_option ((@) (EncodeRune 0xFFFD)) (unquote_loop (drop 4 s')))
                else map_option ((@) (EncodeRune rr)) (unquote_loop (drop 4 s')))
             else None)
      else if c = CHR 0x22 \<or> byte c < 0x20 then None
      else if byte c < 0x80 then map_option ((#) c) (unquote_loop s)
      else
        (let size = utf8_size (c # s) in
         if size = 0 then map_option ((@) RuneError) (unquote_loop s)
         else map_option ((@) (take size (c # s))) (unquote_loop (drop size (c # s)))))"
  by pat_completeness auto
termination
  by (relation "measure length") auto

definition unquote :: "string \<Rightarrow> string option" where
  "unquote s =
     (if length s < 2 \<or> hd s \<noteq> CHR 0x22 \<or> last s \<noteq> CHR 0x22 then None
      else unquote_loop (butlast (tl s)))"

definition literalToken :: "string \<Rightarrow> jerror + token" where
  "literalToken lit =
     (case lit of
        [] \<Rightarrow> Inl PhasePanic
      | c # _ \<Rightarrow>
          if c = CHR 0x22 then (case unquote lit of None \<Rightarrow> Inl PhasePanic | Some s \<Rightarrow> Inr (TString s))
          else if c = CHR ''t'' then Inr (TBool True)
          else if c = CHR ''f'' then Inr (TBool False)
          else if c = CHR ''n'' then Inr TNull
          else Inr (TNumber lit))"

definition peek :: "Decoder \<Rightarrow> (jerror + char) \<times> Decoder" where
  "peek dec =
     (case dropWhile isSpace (buf dec) of
        [] \<Rightarrow> (Inl EOF, dec)
      | c # r \<Rightarrow> (Inr c, dec\<lparr>buf := c # r\<rparr>))"

definition More :: "Decoder \<Rightarrow> bool \<times> Decoder" where
  "More dec =
     (case peek dec of
        (Inl e, dec') \<Rightarrow> (False, dec')
      | (Inr c, dec') \<Rightarrow> (c \<noteq> CHR '']'' \<and> c \<noteq> CHR ''}'', dec'))"

definition tokenValueAllowed :: "Decoder \<Rightarrow> bool" where
  "tokenValueAllowed dec =
     (tokenState dec \<in> set [tokenTopValue, tokenArrayStart, tokenArrayValue, tokenObjectValue])"

definition tokenValueEnd :: "Decoder \<Rightarrow> Decoder" where
  "tokenValueEnd dec =
     (if tokenState dec = tokenArrayStart \<or> tokenState dec = tokenArrayValue
      then dec\<lparr>tokenState := tokenArrayComma\<rparr>
      else if tokenState dec = tokenObjectValue then dec\<lparr>tokenState := tokenObjectComma\<rparr>
      else dec)"

text \<open>\<open>Decode\<close> as \<open>Token\<close> calls it: at a byte that starts no delimiter, in a state
  where a value may start (so \<open>tokenPrepareForDecode\<close> has nothing to do).\<close>

definition Decode :: "Decoder \<Rightarrow> (jerror + token) \<times> Decoder" where
  "Decode dec =
     (case err dec of
        Some e \<Rightarrow> (Inl e, dec)
      | None \<Rightarrow>
          (case scanValue (buf dec) of
             Inl e \<Rightarrow> (Inl e, dec\<lparr>err := Some e\<rparr>)
           | Inr (lit, rest) \<Rightarrow> (literalToken lit, tokenValueEnd (dec\<lparr>buf := rest\<rparr>))))"

definition popState :: "Decoder \<Rightarrow> Decoder" where
  "popState dec =
     tokenValueEnd (dec\<lparr>buf := tl (buf dec), tokenState := last (tokenStack dec),
                        tokenStack := butlast (tokenStack dec)\<rparr>)"

definition pushState :: "tokenState \<Rightarrow> Decoder \<Rightarrow> Decoder" where
  "pushState st dec =
     dec\<lparr>buf := tl (buf dec), tokenStack := tokenStack dec @ [tokenState dec], tokenState := st\<rparr>"

text \<open>One turn of the loop of \<open>Token\<close>: a result, or \<open>continue\<close> with the decoder
  advanced past a colon or a comma.\<close>

definition tokenStep :: "Decoder \<Rightarrow> ((jerror + token) \<times> Decoder) + Decoder" where
  "tokenStep dec0 =
     (case peek dec0 of
        (Inl e, dec) \<Rightarrow> Inl (Inl e, dec)
      | (Inr c, dec) \<Rightarrow>
          if c = CHR ''['' then
            (if \<not> tokenValueAllowed dec then Inl (Inl SyntaxError, dec)
             else Inl (Inr (Delim c), pushState tokenArrayStart dec))
          else if c = CHR '']'' then
            (if tokenState dec \<noteq> tokenArrayStart \<and> tokenState dec \<noteq> tokenArrayComma
             then Inl (Inl SyntaxError, dec)
             else Inl (Inr (Delim c), popState dec))
          else if c = CHR ''{'' then
            (if \<not> tokenValueAllowed dec then Inl (Inl SyntaxError, dec)
             else Inl (Inr (Delim c), pushState tokenObjectStart dec))
          else if c = CHR ''}'' then
            (if tokenState dec \<noteq> tokenObjectStart \<and> tokenState dec \<noteq> tokenObjectComma
             then Inl (Inl SyntaxError, dec)
             else Inl (Inr (Delim c), popState dec))
          else if c = CHR '':'' then
            (if tokenState dec \<noteq> tokenObjectColon then Inl (Inl SyntaxError, dec)
             else Inr (dec\<lparr>buf := tl (buf dec), tokenState := tokenObjectValue\<rparr>))
          else if c = CHR '','' then
            (if tokenState dec = tokenArrayComma
             then Inr (dec\<lparr>buf := tl (buf dec), tokenState := tokenArrayValue\<rparr>)
             else if tokenState dec = tokenObjectComma
             then Inr (dec\<lparr>buf := tl (buf dec), tokenState := tokenObjectKey\<rparr>)
             else Inl (Inl SyntaxError, dec))
          else if c = CHR 0x22
                  \<and> (tokenState dec = tokenObjectStart \<or> tokenState dec = tokenObjectKey) then
            (let old = tokenState dec;
                 (x, dec1) = Decode (dec\<lparr>tokenState := tokenTopValue\<rparr>);
                 dec2 = dec1\<lparr>tokenState := old\<rparr>
             in case x of
                  Inl e \<Rightarrow> Inl (Inl e, dec2)
                | Inr t \<Rightarrow> Inl (Inr t, dec2\<lparr>tokenState := tokenObjectColon\<rparr>))
          else
            (if \<not> tokenValueAllowed dec then Inl (Inl SyntaxError, dec)
             else Inl (Decode dec)))"

lemma peek_buf: "peek dec = (Inr c, dec') \<Longrightarrow> length (tl (buf dec')) < length (buf dec)"
proof -
  assume a: "peek dec = (Inr c, dec')"
  have "length (dropWhile isSpace (buf dec)) \<le> length (buf dec)"
    by (rule length_dropWhile_le)
  with a show ?thesis
    by (cases "dropWhile isSpace (buf dec)") (auto simp: peek_def)
qed

lemma tokenStep_continue:
  assumes "tokenStep dec = Inr dec'"
  shows "length (buf dec') < length (buf dec)"
proof (cases "peek dec")
  case (Pair r d)
  show ?thesis
  proof (cases r)
    case (Inl e)
    with Pair assms show ?thesis by (simp add: tokenStep_def)
  next
    case (Inr c)
    with Pair have "peek dec = (Inr c, d)" by simp
    then have "length (tl (buf d)) < length (buf dec)" by (rule peek_buf)
    moreover from assms Pair Inr have "buf dec' = tl (buf d)"
      by (auto simp: tokenStep_def Let_def split: if_splits prod.splits sum.splits)
    ultimately show ?thesis by simp
  qed
qed

function Token :: "Decoder \<Rightarrow> (jerror + token) \<times> Decoder" where
  "Token dec = (case tokenStep dec of Inl r \<Rightarrow> r | Inr dec' \<Rightarrow> Token dec')"
  by pat_completeness auto
termination
  by (relation "measure (\<lambda>d. length (buf d))") (auto simp: tokenStep_continue)

subsection \<open>\<open>decodeValueOrder\<close>, \<open>decodeObjectOrder\<close>, \<open>decodeArrayOrder\<close>\<close>

text \<open>
  The three functions call each other and loop while \<open>dec.More()\<close>; they are one
  function here, \<open>decodeOrder\<close>, whose first argument says which of them runs:
  \<open>ValueFrame\<close> is \<open>decodeValueOrder\<close>, \<open>ObjectFrame\<close> the loop of
  \<open>decodeObjectOrder\<close> with its local \<open>order\<close> as second argument, and
  \<open>ArrayFrame\<close> the loop of \<open>decodeArrayOrder\<close> (which ignores that argument, as
  \<open>ValueFrame\<close> does). The result is the pair \<open>(order, err)\<close> and the decoder;
  \<open>None\<close> is a run that never returns.
\<close>

datatype frame = ValueFrame | ObjectFrame | ArrayFrame

text \<open>The type assertion \<open>t.(string)\<close>.\<close>

fun asString :: "token \<Rightarrow> string option" where
  "asString (TString s) = Some s"
| "asString t = None"

partial_function (option) decodeOrder ::
  "frame \<Rightarrow> keyOrder \<Rightarrow> Decoder \<Rightarrow> ((keyOrder option \<times> jerror option) \<times> Decoder) option"
where
  "decodeOrder fr order dec =
     (if fr = ValueFrame then
        (case Token dec of
           (Inl e, dec1) \<Rightarrow> Some ((None, Some e), dec1)
         | (Inr t, dec1) \<Rightarrow>
             if t = Delim (CHR ''{'') then decodeOrder ObjectFrame (KeyOrder [] []) dec1
             else if t = Delim (CHR ''['') then decodeOrder ArrayFrame order dec1
             else Some ((None, None), dec1))
      else if fr = ObjectFrame then
        (case More dec of
           (has, dec1) \<Rightarrow>
             if \<not> has then Some ((Some order, None), snd (Token dec1))
             else
               (case Token dec1 of
                  (Inl e, dec2) \<Rightarrow> Some ((Some order, Some e), dec2)
                | (Inr t, dec2) \<Rightarrow>
                    (case asString t of
                       None \<Rightarrow> decodeOrder ObjectFrame order dec2
                     | Some key \<Rightarrow>
                         decodeOrder ValueFrame order dec2 \<bind> (\<lambda>((child, e), dec3).
                           case e of
                             Some e' \<Rightarrow>
                               Some ((Some (KeyOrder (keys order @ [key]) (children order)), Some e'), dec3)
                           | None \<Rightarrow>
                               decodeOrder ObjectFrame
                                 (case child of
                                    None \<Rightarrow> KeyOrder (keys order @ [key]) (children order)
                                  | Some c \<Rightarrow> KeyOrder (keys order @ [key]) ((key, c) # children order))
                                 dec3))))
      else
        (case More dec of
           (has, dec1) \<Rightarrow>
             if \<not> has then Some ((None, None), snd (Token dec1))
             else decodeOrder ValueFrame order dec1 \<bind> (\<lambda>(r, dec2). decodeOrder ArrayFrame order dec2)))"

declare decodeOrder.simps [code]

definition extractKeyOrder :: "string \<Rightarrow> keyOrder option option" where
  "extractKeyOrder data =
     map_option (\<lambda>r. fst (fst r)) (decodeOrder ValueFrame (KeyOrder [] []) (NewDecoder data))"

section \<open>Writing the configuration file\<close>

text \<open>
  The operating system as \<open>WriteConfig\<close> sees it: the contents of the files, the
  files that cannot be read, whether \<open>os.MkdirAll\<close> fails, and whether
  \<open>os.WriteFile\<close> fails, in which case it leaves the file as \<open>writeFailure\<close> says
  (untouched, truncated or partly written). \<open>jsonc.ToJSON\<close> is the parameter
  \<open>toJSON\<close>.
\<close>

record world =
  files :: "string \<Rightarrow> string option"
  unreadable :: "string \<Rightarrow> bool"
  mkdirFails :: bool
  writeFailure :: "string option option"

definition ReadFile :: "world \<Rightarrow> string \<Rightarrow> string option" where
  "ReadFile w path = (if unreadable w path then None else files w path)"

definition MkdirAll :: "world \<Rightarrow> bool" where
  "MkdirAll w = (\<not> mkdirFails w)"

definition WriteFile :: "world \<Rightarrow> string \<Rightarrow> string \<Rightarrow> bool \<times> world" where
  "WriteFile w path data =
     (case writeFailure w of
        None \<Rightarrow> (True, w\<lparr>files := (files w)(path := Some data)\<rparr>)
      | Some left \<Rightarrow> (False, w\<lparr>files := (files w)(path := left)\<rparr>))"

definition WriteConfig ::
  "(string \<Rightarrow> string) \<Rightarrow> world \<Rightarrow> string \<Rightarrow> json \<Rightarrow> (error option \<times> world) option" where
  "WriteConfig toJSON w path config =
     (case ReadFile w path of None \<Rightarrow> Some None | Some existing \<Rightarrow> extractKeyOrder (toJSON existing))
     \<bind> (\<lambda>order.
       let data = marshalOrdered config order
       in if \<not> MkdirAll w then Some (Some CreatingDirectory, w)
          else (case WriteFile w path data of
                  (False, w') \<Rightarrow> Some (Some WritingFile, w')
                | (True, w') \<Rightarrow> Some (None, w')))"

section \<open>Index lemmas\<close>

lemma Index_ge: "- 1 \<le> Index s c"
  by (induction s) (auto simp: Let_def)

lemma Index_none: "(Index s c = -1) = (c \<notin> set s)"
proof (induction s)
  case Nil
  show ?case by simp
next
  case (Cons x xs)
  have "- 1 \<le> Index xs c" by (rule Index_ge)
  with Cons show ?case by (auto simp: Let_def)
qed

lemma Index_take: "c \<in> set s \<Longrightarrow> take (nat (Index s c)) s = takeWhile (\<lambda>x. x \<noteq> c) s"
proof (induction s)
  case Nil
  then show ?case by simp
next
  case (Cons x xs)
  show ?case
  proof (cases "x = c")
    case True
    then show ?thesis by simp
  next
    case False
    with Cons.prems have in_xs: "c \<in> set xs" by simp
    then have ne: "Index xs c \<noteq> -1" by (simp add: Index_none)
    have ge: "- 1 \<le> Index xs c" by (rule Index_ge)
    from ne ge have "nat (Index xs c + 1) = Suc (nat (Index xs c))" by linarith
    with False ne Cons.IH [OF in_xs] show ?thesis by (simp add: Let_def)
  qed
qed

lemma Index_drop:
  "c \<in> set s \<Longrightarrow> drop (Suc (nat (Index s c))) s = tl (dropWhile (\<lambda>x. x \<noteq> c) s)"
proof (induction s)
  case Nil
  then show ?case by simp
next
  case (Cons x xs)
  show ?case
  proof (cases "x = c")
    case True
    then show ?thesis by simp
  next
    case False
    with Cons.prems have in_xs: "c \<in> set xs" by simp
    then have ne: "Index xs c \<noteq> -1" by (simp add: Index_none)
    have ge: "- 1 \<le> Index xs c" by (rule Index_ge)
    from ne ge have "nat (Index xs c + 1) = Suc (nat (Index xs c))" by linarith
    with False ne Cons.IH [OF in_xs] show ?thesis by (simp add: Let_def)
  qed
qed

lemma LastIndex_ge: "- 1 \<le> LastIndex s c"
  by (induction s) (auto simp: Let_def)

lemma LastIndex_none: "(LastIndex s c = -1) = (c \<notin> set s)"
proof (induction s)
  case Nil
  show ?case by simp
next
  case (Cons x xs)
  have "- 1 \<le> LastIndex xs c" by (rule LastIndex_ge)
  with Cons show ?case by (auto simp: Let_def)
qed

lemma LastIndex_split:
  "c \<in> set s \<Longrightarrow> \<exists>t. s = take (nat (LastIndex s c)) s @ c # t \<and> c \<notin> set t"
proof (induction s)
  case Nil
  then show ?case by simp
next
  case (Cons x xs)
  show ?case
  proof (cases "c \<in> set xs")
    case True
    then have ne: "LastIndex xs c \<noteq> -1" by (simp add: LastIndex_none)
    have ge: "- 1 \<le> LastIndex xs c" by (rule LastIndex_ge)
    from ne ge have n: "nat (LastIndex xs c + 1) = Suc (nat (LastIndex xs c))" by linarith
    from Cons.IH [OF True] obtain t
      where t: "xs = take (nat (LastIndex xs c)) xs @ c # t" "c \<notin> set t" by blast
    have "x # xs = take (nat (LastIndex (x # xs) c)) (x # xs) @ c # t"
      using ne n t(1) by (simp add: Let_def)
    with t(2) show ?thesis by blast
  next
    case False
    with Cons.prems have xc: "x = c" by simp
    from False have "LastIndex xs c = -1" by (simp add: LastIndex_none)
    with xc False show ?thesis by (simp add: Let_def)
  qed
qed

lemma before_last_split: "c \<notin> set t \<Longrightarrow> spec_before_last c (p @ c # t) = p"
proof -
  assume nt: "c \<notin> set t"
  then have "dropWhile (\<lambda>x. x \<noteq> c) (rev t @ c # rev p) = c # rev p"
    by (subst dropWhile_append2) auto
  then show ?thesis by (simp add: spec_before_last_def)
qed

lemma LastIndex_take:
  "take (nat (LastIndex s c)) s = (if c \<in> set s then spec_before_last c s else [])"
proof (cases "c \<in> set s")
  case True
  from LastIndex_split [OF True] obtain t
    where t: "s = take (nat (LastIndex s c)) s @ c # t" "c \<notin> set t" by blast
  have "spec_before_last c (take (nat (LastIndex s c)) s @ c # t) = take (nat (LastIndex s c)) s"
    using t(2) by (rule before_last_split)
  with t(1) True show ?thesis by simp
next
  case False
  then have "LastIndex s c = -1" by (simp add: LastIndex_none)
  with False show ?thesis by simp
qed

lemma TrimPrefix_scheme: "TrimPrefix r ''oci://'' = spec_strip_scheme r"
proof -
  have "length ''oci://'' = 6" by simp
  then show ?thesis
    unfolding TrimPrefix_def HasPrefix_def spec_strip_scheme_def by presburger
qed

section \<open>OCI references: results\<close>

lemma SplitN2_first: "SplitN2 s c ! 0 = spec_before_first c s"
proof (cases "c \<in> set s")
  case True
  then show ?thesis
    by (simp add: SplitN2_def Let_def Index_none Index_take spec_before_first_def)
next
  case False
  then have "spec_before_first c s = s"
    unfolding spec_before_first_def by (induction s) auto
  with False show ?thesis
    by (simp add: SplitN2_def Let_def Index_none)
qed

lemma SplitN2_length: "(length (SplitN2 s c) = 2) = (c \<in> set s)"
  by (simp add: SplitN2_def Let_def Index_none)

lemma SplitN2_second: "c \<in> set s \<Longrightarrow> SplitN2 s c ! 1 = tl (dropWhile (\<lambda>x. x \<noteq> c) s)"
  using Index_drop [of c s] by (simp add: SplitN2_def Let_def Index_none)

text \<open>
  C5 as stated: parsing fails exactly when fewer than two path segments follow the
  registry host. The reference \<open>ghcr.io/python:1\<close> has one such segment and parses.
\<close>

theorem ParseOciRef_two_segments_counterexample:
  "\<not> (isl (ParseOciRef ''ghcr.io/python:1'')
        = (spec_segments_beyond_host ''ghcr.io/python:1'' < 2))"
  by (simp add: ParseOciRef_def SplitN2_def TrimPrefix_def HasPrefix_def Let_def
      spec_segments_beyond_host_def spec_before_first_def spec_strip_scheme_def)

text \<open>
  C5 as amended: with the scheme trimmed and everything from the first colon cut off,
  parsing fails exactly when no path segment follows the registry host (the rest has
  no slash). Otherwise it succeeds with the registry (the text before the first slash),
  the repository (everything after that slash) and the tag (the text after the first
  colon, \<open>latest\<close> without one).
\<close>

theorem ParseOciRef_fails_iff_no_segment:
  "isl (ParseOciRef ref) = (spec_segments_beyond_host ref = 0) \<and>
   ParseOciRef ref =
     (let r = spec_strip_scheme ref; p = spec_before_first (CHR '':'') r
      in if CHR ''/'' \<in> set p
         then Inr (spec_before_first (CHR ''/'') p,
                   tl (dropWhile (\<lambda>x. x \<noteq> CHR ''/'') p),
                   if CHR '':'' \<in> set r then tl (dropWhile (\<lambda>x. x \<noteq> CHR '':'') r)
                   else ''latest'')
         else Inl (InvalidOCIReference ref))"
proof -
  define r where "r = spec_strip_scheme ref"
  define p where "p = spec_before_first (CHR '':'') r"
  have tag: "(if length (SplitN2 r (CHR '':'')) = 2 then SplitN2 r (CHR '':'') ! 1 else ''latest'')
      = (if CHR '':'' \<in> set r then tl (dropWhile (\<lambda>x. x \<noteq> CHR '':'') r) else ''latest'')"
    using SplitN2_second [of "CHR '':''" r] by (simp add: SplitN2_length)
  have main: "ParseOciRef ref =
      (if CHR ''/'' \<in> set p
       then Inr (spec_before_first (CHR ''/'') p, tl (dropWhile (\<lambda>x. x \<noteq> CHR ''/'') p),
                 if CHR '':'' \<in> set r then tl (dropWhile (\<lambda>x. x \<noteq> CHR '':'') r) else ''latest'')
       else Inl (InvalidOCIReference ref))"
  proof (cases "CHR ''/'' \<in> set p")
    case True
    then show ?thesis
      unfolding ParseOciRef_def TrimPrefix_scheme Let_def r_def [symmetric] tag
        SplitN2_first p_def [symmetric]
      by (simp add: Index_none Index_take Index_drop spec_before_first_def)
  next
    case False
    then show ?thesis
      unfolding ParseOciRef_def TrimPrefix_scheme Let_def r_def [symmetric] tag
        SplitN2_first p_def [symmetric]
      by (simp add: Index_none)
  qed
  have "(filter (\<lambda>x. x = CHR ''/'') p = []) = (CHR ''/'' \<notin> set p)"
    by (auto simp: filter_empty_conv)
  then have "isl (ParseOciRef ref) = (spec_segments_beyond_host ref = 0)"
    using main by (simp add: spec_segments_beyond_host_def r_def p_def)
  moreover have "ParseOciRef ref =
     (let r = spec_strip_scheme ref; p = spec_before_first (CHR '':'') r
      in if CHR ''/'' \<in> set p
         then Inr (spec_before_first (CHR ''/'') p,
                   tl (dropWhile (\<lambda>x. x \<noteq> CHR ''/'') p),
                   if CHR '':'' \<in> set r then tl (dropWhile (\<lambda>x. x \<noteq> CHR '':'') r)
                   else ''latest'')
         else Inl (InvalidOCIReference ref))"
    using main by (simp add: Let_def r_def p_def)
  ultimately show ?thesis by blast
qed

text \<open>
  C6: \<open>extractCollectionBase\<close> trims the scheme, cuts the text off at its last colon
  and then at its last slash (each only when the byte occurs); the reference
  \<open>ghcr.io/devcontainers/templates/python:1\<close> gives \<open>ghcr.io/devcontainers/templates\<close>.
\<close>

theorem extractCollectionBase_spec:
  "extractCollectionBase ref =
     spec_before_last (CHR ''/'') (spec_before_last (CHR '':'') (spec_strip_scheme ref)) \<and>
   extractCollectionBase ''ghcr.io/devcontainers/templates/python:1''
     = ''ghcr.io/devcontainers/templates''"
proof -
  have cut: "(if LastIndex s c \<noteq> -1 then take (nat (LastIndex s c)) s else s)
      = spec_before_last c s" for s c
    by (simp add: LastIndex_none LastIndex_take) (simp add: spec_before_last_def)
  have "extractCollectionBase ref =
     spec_before_last (CHR ''/'') (spec_before_last (CHR '':'') (spec_strip_scheme ref))"
    unfolding extractCollectionBase_def Let_def TrimPrefix_scheme cut ..
  moreover have "extractCollectionBase ''ghcr.io/devcontainers/templates/python:1''
     = ''ghcr.io/devcontainers/templates''"
    by (simp add: extractCollectionBase_def TrimPrefix_def HasPrefix_def Let_def)
  ultimately show ?thesis by blast
qed

end
